theory Spec2Isabelle
  imports Main "HOL-Library.AList"
begin

section \<open>The outfit-history state machine of the try-on application\<close>

text \<open>
  The component \<open>App\<close> keeps its state in React state cells and changes it in event
  handlers. Each handler is embedded as a function from the state before the event to the
  state after it. A handler that awaits the image service receives the outcome of the awaited
  call as an argument (\<open>Inl\<close> the thrown value, \<open>Inr\<close> the image) and returns, beside the
  new state, the list of service calls it issued. A handler runs to completion before the
  next one starts (one logical thread, as the busy flag \<open>isLoading\<close> intends), so the values
  captured by its closure are those of the state it starts from, and a state updater
  \<open>prev => ...\<close> receives that same state.
\<close>

subsection \<open>JavaScript values\<close>

text \<open>A thrown JavaScript value, with its message.\<close>

datatype js_error = JsError string

text \<open>The content of a \<open>File\<close> object.\<close>

type_synonym js_file = string

text \<open>
  \<open>null\<close> and \<open>undefined\<close> are both \<open>None\<close>: the code only tests them for truthiness or
  with \<open>??\<close>. A string is truthy when it is not empty.
\<close>

definition truthy :: "string option \<Rightarrow> bool" where
  "truthy v = (case v of None \<Rightarrow> False | Some x \<Rightarrow> x \<noteq> [])"

text \<open>\<open>xs[i]\<close>: \<open>undefined\<close> outside the array.\<close>

definition js_index :: "'a list \<Rightarrow> int \<Rightarrow> 'a option" where
  "js_index xs i = (if 0 \<le> i \<and> i < int (length xs) then Some (xs ! nat i) else None)"

text \<open>\<open>xs.slice(0, e)\<close>: a negative end counts from the end of the array.\<close>

definition js_slice0 :: "'a list \<Rightarrow> int \<Rightarrow> 'a list" where
  "js_slice0 xs e =
     (let n = int (length xs);
          k = (if e < 0 then max (n + e) 0 else min e n)
      in take (nat k) xs)"

text \<open>
  A property key: \<open>obj[undefined]\<close> and \<open>{[undefined]: v}\<close> use the key \<open>"undefined"\<close>.
\<close>

definition prop_key :: "string option \<Rightarrow> string" where
  "prop_key k = (case k of None \<Rightarrow> ''undefined'' | Some p \<Rightarrow> p)"

text \<open>
  \<open>Record<string, string>\<close>: an object whose keys (none of them an array index here) are
  kept in insertion order. Reading is \<open>map_of\<close>, \<open>obj[k] = v\<close> is \<open>AList.update\<close> (in
  place for a key that is there, at the end for a new one), and \<open>Object.values(obj)[0]\<close>
  is the value inserted first.
\<close>

type_synonym js_record = "(string \<times> string) list"

definition first_value :: "js_record \<Rightarrow> string option" where
  "first_value m = (case m of [] \<Rightarrow> None | kv # _ \<Rightarrow> Some (snd kv))"

text \<open>\<open>n.toString()\<close> for a natural number; \<open>digit_char\<close> is only applied to a digit.\<close>

definition digit_char :: "nat \<Rightarrow> char" where
  "digit_char d = ''0123456789'' ! d"

function show_nat :: "nat \<Rightarrow> string" where
  "show_nat n = (if n < 10 then [digit_char n] else show_nat (n div 10) @ [digit_char (n mod 10)])"
  by pat_completeness auto
termination
  by (relation "measure (\<lambda>n. n)") auto

subsection \<open>Data model\<close>

record wardrobe_item =
  item_id :: string
  item_name :: string
  item_url :: string

record outfit_layer =
  garment :: "wardrobe_item option"
  poseImages :: js_record

record saved_outfit =
  so_id :: string
  so_name :: string
  so_thumbnailUrl :: string
  layers :: "wardrobe_item option list"

record background =
  bg_id :: string
  bg_name :: string
  bg_thumbnailUrl :: string
  bg_prompt :: string

definition POSE_INSTRUCTIONS :: "string list" where
  "POSE_INSTRUCTIONS =
     [''Full frontal view, hands on hips'',
      ''Slightly turned, 3/4 view'',
      ''Side profile view'',
      ''Jumping in the air, mid-action shot'',
      ''Walking towards camera'',
      ''Leaning against a wall'']"

definition defaultBackgrounds :: "background list" where
  "defaultBackgrounds =
     [\<lparr>bg_id = ''studio'', bg_name = ''Neutral Studio'',
       bg_thumbnailUrl = ''https://storage.googleapis.com/gemini-95-icons/background-studio.jpg'',
       bg_prompt = ''a clean, neutral studio backdrop (light gray, #f0f0f0)''\<rparr>,
      \<lparr>bg_id = ''outdoor-cafe'', bg_name = ''Outdoor Cafe'',
       bg_thumbnailUrl = ''https://storage.googleapis.com/gemini-95-icons/background-cafe.jpg'',
       bg_prompt = ''a blurry, sun-drenched outdoor cafe patio with green plants in the background, creating a soft bokeh effect''\<rparr>,
      \<lparr>bg_id = ''city-street'', bg_name = ''City Street'',
       bg_thumbnailUrl = ''https://storage.googleapis.com/gemini-95-icons/background-city.jpg'',
       bg_prompt = ''a vibrant, slightly blurred city street scene during the day, with architectural details and soft light''\<rparr>,
      \<lparr>bg_id = ''abstract'', bg_name = ''Abstract'',
       bg_thumbnailUrl = ''https://storage.googleapis.com/gemini-95-icons/background-gradient.jpg'',
       bg_prompt = ''a minimal, abstract background with a soft, tasteful gradient of pastel colors (light peach to soft lavender)''\<rparr>]"

text \<open>\<open>defaultBackgrounds[0]\<close>.\<close>

definition defaultBackground :: background where
  "defaultBackground = hd defaultBackgrounds"

text \<open>The state cells of \<open>App\<close> (\<open>useState\<close>).\<close>

record app_state =
  modelImageUrl :: "string option"
  outfitHistory :: "outfit_layer list"
  currentOutfitIndex :: int
  isLoading :: bool
  loadingMessage :: string
  error :: "string option"
  currentPoseIndex :: int
  isSheetCollapsed :: bool
  wardrobe :: "wardrobe_item list"
  savedOutfits :: "saved_outfit list"
  currentBackgroundId :: string

text \<open>The calls to the image service and to \<open>urlToFile\<close>, with their arguments.\<close>

datatype service_call =
    GenerateVirtualTryOnImage string js_file string
  | GeneratePoseVariation string "string option" string
  | ChangeBackgroundImage string string
  | UrlToFile string string

subsection \<open>Derived values (\<open>useMemo\<close>)\<close>

definition activeOutfitLayers :: "app_state \<Rightarrow> outfit_layer list" where
  "activeOutfitLayers s = js_slice0 (outfitHistory s) (currentOutfitIndex s + 1)"

text \<open>\<open>layer.poseImages[k] ?? Object.values(layer.poseImages)[0]\<close>.\<close>

definition pose_image_or_first :: "outfit_layer \<Rightarrow> string option \<Rightarrow> string option" where
  "pose_image_or_first layer poseInstruction =
     (case map_of (poseImages layer) (prop_key poseInstruction) of
        Some v \<Rightarrow> Some v
      | None \<Rightarrow> first_value (poseImages layer))"

definition displayImageUrl :: "app_state \<Rightarrow> string option" where
  "displayImageUrl s =
     (if outfitHistory s = [] then modelImageUrl s
      else case js_index (outfitHistory s) (currentOutfitIndex s) of
             None \<Rightarrow> modelImageUrl s
           | Some currentLayer \<Rightarrow>
               pose_image_or_first currentLayer (js_index POSE_INSTRUCTIONS (currentPoseIndex s)))"

definition currentBackground :: "app_state \<Rightarrow> background" where
  "currentBackground s =
     (case find (\<lambda>bg. bg_id bg = currentBackgroundId s) defaultBackgrounds of
        Some bg \<Rightarrow> bg
      | None \<Rightarrow> defaultBackground)"

subsection \<open>Handlers\<close>

text \<open>The \<open>finally\<close> block shared by the asynchronous handlers.\<close>

definition finally_idle :: "app_state \<Rightarrow> app_state" where
  "finally_idle s = s\<lparr>isLoading := False, loadingMessage := []\<rparr>"

definition handleModelFinalized :: "string \<Rightarrow> app_state \<Rightarrow> app_state" where
  "handleModelFinalized url s =
     s\<lparr>modelImageUrl := Some url,
       outfitHistory := [\<lparr>garment = None,
                          poseImages = [(prop_key (js_index POSE_INSTRUCTIONS 0), url)]\<rparr>],
       currentOutfitIndex := 0\<rparr>"

text \<open>\<open>defaultWardrobe\<close> is imported from a module that is not part of the sources read here.\<close>

definition handleStartOver :: "wardrobe_item list \<Rightarrow> app_state \<Rightarrow> app_state" where
  "handleStartOver defaultWardrobe s =
     s\<lparr>modelImageUrl := None, outfitHistory := [], currentOutfitIndex := 0,
       isLoading := False, loadingMessage := [], error := None, currentPoseIndex := 0,
       isSheetCollapsed := False, wardrobe := defaultWardrobe,
       currentBackgroundId := bg_id defaultBackground\<rparr>"

text \<open>
  \<open>getFriendlyErrorMessage\<close> comes from \<open>lib/utils\<close>, which is not part of the sources read
  here; the handlers take it as their first argument.
\<close>

definition handleGarmentSelect ::
  "(js_error \<Rightarrow> string \<Rightarrow> string) \<Rightarrow> app_state \<Rightarrow> js_file \<Rightarrow> wardrobe_item
     \<Rightarrow> js_error + string \<Rightarrow> app_state \<times> service_call list" where
  "handleGarmentSelect getFriendlyErrorMessage s garmentFile garmentInfo outcome =
     (if \<not> truthy (displayImageUrl s) \<or> isLoading s then (s, [])
      else
        let nextLayer = js_index (outfitHistory s) (currentOutfitIndex s + 1) in
        if (case nextLayer of
              None \<Rightarrow> False
            | Some l \<Rightarrow> map_option item_id (garment l) = Some (item_id garmentInfo))
        then (s\<lparr>currentOutfitIndex := currentOutfitIndex s + 1, currentPoseIndex := 0\<rparr>, [])
        else
          let call = GenerateVirtualTryOnImage (the (displayImageUrl s)) garmentFile
                       (bg_prompt (currentBackground s))
          in case outcome of
               Inr newImageUrl \<Rightarrow>
                 let currentPoseInstruction = js_index POSE_INSTRUCTIONS (currentPoseIndex s);
                     newLayer = \<lparr>garment = Some garmentInfo,
                                 poseImages = [(prop_key currentPoseInstruction, newImageUrl)]\<rparr>
                 in (finally_idle
                       (s\<lparr>error := None,
                          outfitHistory :=
                            js_slice0 (outfitHistory s) (currentOutfitIndex s + 1) @ [newLayer],
                          currentOutfitIndex := currentOutfitIndex s + 1,
                          wardrobe :=
                            (case find (\<lambda>item. item_id item = item_id garmentInfo) (wardrobe s) of
                               Some _ \<Rightarrow> wardrobe s
                             | None \<Rightarrow> wardrobe s @ [garmentInfo])\<rparr>),
                     [call])
             | Inl err \<Rightarrow>
                 (finally_idle
                    (s\<lparr>error := Some (getFriendlyErrorMessage err ''Failed to apply garment'')\<rparr>),
                  [call]))"

definition handleRemoveLastGarment :: "app_state \<Rightarrow> app_state" where
  "handleRemoveLastGarment s =
     (if currentOutfitIndex s > 0
      then s\<lparr>currentOutfitIndex := currentOutfitIndex s - 1, currentPoseIndex := 0\<rparr>
      else s)"

text \<open>
  When the active layer is \<open>undefined\<close>, reading \<open>currentLayer.poseImages\<close> throws before any
  state cell is written and outside the \<open>try\<close>: the state stays as it is.
\<close>

definition handlePoseSelect ::
  "(js_error \<Rightarrow> string \<Rightarrow> string) \<Rightarrow> app_state \<Rightarrow> int
     \<Rightarrow> js_error + string \<Rightarrow> app_state \<times> service_call list" where
  "handlePoseSelect getFriendlyErrorMessage s newIndex outcome =
     (if isLoading s \<or> outfitHistory s = [] \<or> newIndex = currentPoseIndex s then (s, [])
      else
        let poseInstruction = js_index POSE_INSTRUCTIONS newIndex in
        case js_index (outfitHistory s) (currentOutfitIndex s) of
          None \<Rightarrow> (s, [])
        | Some currentLayer \<Rightarrow>
            (if truthy (map_of (poseImages currentLayer) (prop_key poseInstruction))
             then (s\<lparr>currentPoseIndex := newIndex\<rparr>, [])
             else
               let baseImageForPoseChange = first_value (poseImages currentLayer) in
               if \<not> truthy baseImageForPoseChange then (s, [])
               else
                 let prevPoseIndex = currentPoseIndex s;
                     call = GeneratePoseVariation (the baseImageForPoseChange) poseInstruction
                              (bg_prompt (currentBackground s))
                 in (case outcome of
                       Inr newImageUrl \<Rightarrow>
                         let updatedLayer =
                               currentLayer\<lparr>poseImages :=
                                 AList.update (prop_key poseInstruction) newImageUrl
                                   (poseImages currentLayer)\<rparr>
                         in (finally_idle
                               (s\<lparr>error := None,
                                  currentPoseIndex := newIndex,
                                  outfitHistory :=
                                    list_update (outfitHistory s) (nat (currentOutfitIndex s))
                                      updatedLayer\<rparr>),
                             [call])
                     | Inl err \<Rightarrow>
                         (finally_idle
                            (s\<lparr>error := Some (getFriendlyErrorMessage err ''Failed to change pose''),
                               currentPoseIndex := prevPoseIndex\<rparr>),
                          [call]))))"

text \<open>
  Here the active layer is read inside the \<open>try\<close>: an \<open>undefined\<close> layer and a missing
  base image both end in the \<open>catch\<close> block, without a call to the service.
\<close>

definition handleBackgroundChange ::
  "(js_error \<Rightarrow> string \<Rightarrow> string) \<Rightarrow> app_state \<Rightarrow> string
     \<Rightarrow> js_error + string \<Rightarrow> app_state \<times> service_call list" where
  "handleBackgroundChange getFriendlyErrorMessage s newBackgroundId outcome =
     (case find (\<lambda>bg. bg_id bg = newBackgroundId) defaultBackgrounds of
        None \<Rightarrow> (s, [])
      | Some selectedBg \<Rightarrow>
          if isLoading s \<or> currentBackgroundId s = newBackgroundId \<or> outfitHistory s = []
          then (s, [])
          else
            let prevBackgroundId = currentBackgroundId s;
                catch = (\<lambda>err.
                  finally_idle
                    (s\<lparr>error := Some (getFriendlyErrorMessage err ''Failed to change background''),
                       currentBackgroundId := prevBackgroundId\<rparr>))
            in (case js_index (outfitHistory s) (currentOutfitIndex s) of
                  None \<Rightarrow> (catch (JsError ''TypeError''), [])
                | Some currentLayer \<Rightarrow>
                    (let currentPoseInstruction = js_index POSE_INSTRUCTIONS (currentPoseIndex s);
                         baseImageForBgChange = pose_image_or_first currentLayer currentPoseInstruction
                     in if \<not> truthy baseImageForBgChange
                        then (catch (JsError ''No valid base image found to change background.''), [])
                        else
                          let call = ChangeBackgroundImage (the baseImageForBgChange)
                                       (bg_prompt selectedBg)
                          in (case outcome of
                                Inr newImageUrl \<Rightarrow>
                                  let updatedLayer =
                                        currentLayer\<lparr>poseImages :=
                                          [(prop_key currentPoseInstruction, newImageUrl)]\<rparr>
                                  in (finally_idle
                                        (s\<lparr>error := None,
                                           currentBackgroundId := newBackgroundId,
                                           outfitHistory :=
                                             list_update (outfitHistory s) (nat (currentOutfitIndex s))
                                               updatedLayer\<rparr>),
                                      [call])
                              | Inl err \<Rightarrow> (catch err, [call])))))"

text \<open>
  \<open>now\<close> is \<open>Date.now().toString()\<close>; \<open>storage_ok\<close> tells whether \<open>localStorage.setItem\<close>
  returned without throwing.
\<close>

definition handleSaveOutfit :: "app_state \<Rightarrow> string \<Rightarrow> bool \<Rightarrow> app_state" where
  "handleSaveOutfit s now storage_ok =
     (if length (activeOutfitLayers s) \<le> 1 \<or> \<not> truthy (displayImageUrl s) then s
      else
        let newSavedOutfit =
              \<lparr>so_id = now,
               so_name = ''Outfit '' @ show_nat (length (savedOutfits s) + 1),
               so_thumbnailUrl = the (displayImageUrl s),
               layers = map garment (activeOutfitLayers s)\<rparr>;
            updatedOutfits = savedOutfits s @ [newSavedOutfit]
        in s\<lparr>savedOutfits := updatedOutfits,
             error := (if storage_ok then error s
                       else Some ''Could not save outfit. Storage might be full.'')\<rparr>)"

definition handleDeleteOutfit :: "app_state \<Rightarrow> string \<Rightarrow> app_state" where
  "handleDeleteOutfit s idToDelete =
     s\<lparr>savedOutfits := filter (\<lambda>outfit. so_id outfit \<noteq> idToDelete) (savedOutfits s)\<rparr>"

text \<open>
  The loop of \<open>handleLoadOutfit\<close>, from iteration \<open>i\<close> on: \<open>files i\<close> is the outcome of the
  \<open>urlToFile\<close> call of iteration \<open>i\<close> and \<open>renders i\<close> that of its call to the image
  service. The loop works on the local array \<open>newHistory\<close>; the first failure leaves it.
\<close>

fun load_loop ::
  "(nat \<Rightarrow> js_error + js_file) \<Rightarrow> (nat \<Rightarrow> js_error + string) \<Rightarrow> nat \<Rightarrow> wardrobe_item list
     \<Rightarrow> string \<Rightarrow> outfit_layer list \<Rightarrow> (js_error + outfit_layer list) \<times> service_call list" where
  "load_loop files renders i [] currentImageUrl newHistory = (Inr newHistory, [])"
| "load_loop files renders i (g # gs) currentImageUrl newHistory =
     (case files i of
        Inl err \<Rightarrow> (Inl err, [UrlToFile (item_url g) (item_name g)])
      | Inr garmentFile \<Rightarrow>
          (case renders i of
             Inl err \<Rightarrow>
               (Inl err,
                [UrlToFile (item_url g) (item_name g),
                 GenerateVirtualTryOnImage currentImageUrl garmentFile (bg_prompt defaultBackground)])
           | Inr newImageUrl \<Rightarrow>
               (let newLayer = \<lparr>garment = Some g,
                                poseImages = [(prop_key (js_index POSE_INSTRUCTIONS 0), newImageUrl)]\<rparr>;
                    rest = load_loop files renders (Suc i) gs newImageUrl (newHistory @ [newLayer])
                in (fst rest,
                    [UrlToFile (item_url g) (item_name g),
                     GenerateVirtualTryOnImage currentImageUrl garmentFile (bg_prompt defaultBackground)]
                    @ snd rest))))"

text \<open>
  The progress text that the loop writes to \<open>loadingMessage\<close> is overwritten by the
  \<open>finally\<close> block before the handler ends, so it is not part of the state returned.
\<close>

definition handleLoadOutfit ::
  "(js_error \<Rightarrow> string \<Rightarrow> string) \<Rightarrow> app_state \<Rightarrow> saved_outfit
     \<Rightarrow> (nat \<Rightarrow> js_error + js_file) \<Rightarrow> (nat \<Rightarrow> js_error + string)
     \<Rightarrow> app_state \<times> service_call list" where
  "handleLoadOutfit getFriendlyErrorMessage s outfitToLoad files renders =
     (if isLoading s \<or> \<not> truthy (modelImageUrl s) then (s, [])
      else
        let s1 = s\<lparr>error := None, isLoading := True,
                   currentBackgroundId := bg_id defaultBackground\<rparr>;
            url = the (modelImageUrl s);
            garmentsToApply = List.map_filter (\<lambda>l. l) (layers outfitToLoad);
            run = load_loop files renders 0 garmentsToApply url
                    [\<lparr>garment = None,
                      poseImages = [(prop_key (js_index POSE_INSTRUCTIONS 0), url)]\<rparr>]
        in case fst run of
             Inr newHistory \<Rightarrow>
               (finally_idle
                  (s1\<lparr>outfitHistory := newHistory,
                      currentOutfitIndex := int (length newHistory) - 1,
                      currentPoseIndex := 0\<rparr>),
                snd run)
           | Inl err \<Rightarrow>
               (finally_idle
                  (s1\<lparr>error := Some (getFriendlyErrorMessage err ''Failed to load outfit'')\<rparr>),
                snd run))"

subsection \<open>Sequences of operations\<close>

text \<open>
  The operations of the outfit history manager, each with the inputs of its handler and the
  outcomes of the calls it awaits.
\<close>

datatype operation =
    Initialize string
  | ApplyGarment js_file wardrobe_item "js_error + string"
  | RemoveLastGarment
  | SelectPose int "js_error + string"
  | ChangeBackground string "js_error + string"
  | SaveSnapshot string bool
  | LoadSnapshot saved_outfit "nat \<Rightarrow> js_error + js_file" "nat \<Rightarrow> js_error + string"
  | DeleteSnapshot string

fun step :: "(js_error \<Rightarrow> string \<Rightarrow> string) \<Rightarrow> app_state \<Rightarrow> operation \<Rightarrow> app_state" where
  "step f s (Initialize url) = handleModelFinalized url s"
| "step f s (ApplyGarment garmentFile garmentInfo outcome) =
     fst (handleGarmentSelect f s garmentFile garmentInfo outcome)"
| "step f s RemoveLastGarment = handleRemoveLastGarment s"
| "step f s (SelectPose newIndex outcome) = fst (handlePoseSelect f s newIndex outcome)"
| "step f s (ChangeBackground newBackgroundId outcome) =
     fst (handleBackgroundChange f s newBackgroundId outcome)"
| "step f s (SaveSnapshot now storage_ok) = handleSaveOutfit s now storage_ok"
| "step f s (LoadSnapshot outfitToLoad files renders) =
     fst (handleLoadOutfit f s outfitToLoad files renders)"
| "step f s (DeleteSnapshot idToDelete) = handleDeleteOutfit s idToDelete"

definition run_ops :: "(js_error \<Rightarrow> string \<Rightarrow> string) \<Rightarrow> app_state \<Rightarrow> operation list \<Rightarrow> app_state" where
  "run_ops f s ops = foldl (step f) s ops"

subsection \<open>The two screens\<close>

text \<open>The state of \<open>App\<close> when it is mounted, for a given \<open>defaultWardrobe\<close>.\<close>

definition initialState :: "wardrobe_item list \<Rightarrow> app_state" where
  "initialState defaultWardrobe =
     \<lparr>modelImageUrl = None, outfitHistory = [], currentOutfitIndex = 0, isLoading = False,
      loadingMessage = [], error = None, currentPoseIndex = 0, isSheetCollapsed = False,
      wardrobe = defaultWardrobe, savedOutfits = [],
      currentBackgroundId = bg_id defaultBackground\<rparr>"






subsection \<open>Invariant of the history\<close>

text \<open>
  A history starts with the base layer (no garment), and every later layer carries a garment.
\<close>

definition wf_history :: "outfit_layer list \<Rightarrow> bool" where
  "wf_history h =
     (case h of
        [] \<Rightarrow> False
      | l # ls \<Rightarrow> garment l = None \<and> list_all (\<lambda>l. garment l \<noteq> None) ls)"

text \<open>
  The cursor points into a well-formed history and a model image has been set; when that
  image is the empty string (falsy), the history is still the single base layer made from it.
\<close>

definition hist_inv :: "app_state \<Rightarrow> bool" where
  "hist_inv s =
     (0 \<le> currentOutfitIndex s \<and> currentOutfitIndex s < int (length (outfitHistory s))
      \<and> wf_history (outfitHistory s)
      \<and> modelImageUrl s \<noteq> None
      \<and> (modelImageUrl s = Some [] \<longrightarrow>
            outfitHistory s =
              [\<lparr>garment = None, poseImages = [(''Full frontal view, hands on hips'', [])]\<rparr>]))"

subsection \<open>Example inputs\<close>

definition shirt :: wardrobe_item where
  "shirt = \<lparr>item_id = ''shirt-1'', item_name = ''Shirt'', item_url = ''https://example.org/shirt.png''\<rparr>"

definition jacket :: wardrobe_item where
  "jacket = \<lparr>item_id = ''jacket-1'', item_name = ''Jacket'', item_url = ''https://example.org/jacket.png''\<rparr>"

text \<open>An error message function that joins the context and the message of the error.\<close>

definition plainMessage :: "js_error \<Rightarrow> string \<Rightarrow> string" where
  "plainMessage err context = (case err of JsError m \<Rightarrow> context @ '': '' @ m)"

text \<open>Every \<open>urlToFile\<close> call succeeds.\<close>

definition filesOk :: "nat \<Rightarrow> js_error + js_file" where
  "filesOk i = Inr (''file'' @ show_nat i)"

text \<open>Every render succeeds.\<close>

definition rendersOk :: "nat \<Rightarrow> js_error + string" where
  "rendersOk i = Inr (''R'' @ show_nat i)"

text \<open>The first render succeeds, every later one fails.\<close>

definition rendersFailSecond :: "nat \<Rightarrow> js_error + string" where
  "rendersFailSecond i = (if i = 0 then Inr ''R0'' else Inl (JsError ''quota exceeded''))"

text \<open>Base image \<open>B0\<close>, then a shirt applied with result \<open>B1\<close>.\<close>

definition shirtState :: app_state where
  "shirtState =
     run_ops plainMessage (handleModelFinalized ''B0'' (initialState []))
       [ApplyGarment ''shirt-file'' shirt (Inr ''B1'')]"

text \<open>The same on the city-street background, in the third pose.\<close>

definition streetState :: app_state where
  "streetState =
     run_ops plainMessage shirtState
       [ChangeBackground ''city-street'' (Inr ''B2''), SelectPose 2 (Inr ''B3'')]"

text \<open>Shirt and jacket applied, then the jacket removed: its layer stays after the cursor.\<close>

definition undoState :: app_state where
  "undoState =
     run_ops plainMessage (handleModelFinalized ''B0'' (initialState []))
       [ApplyGarment ''shirt-file'' shirt (Inr ''B1''),
        ApplyGarment ''jacket-file'' jacket (Inr ''B4''),
        RemoveLastGarment]"

text \<open>Another model image \<open>C0\<close>, nothing applied.\<close>

definition otherModelState :: app_state where
  "otherModelState = handleModelFinalized ''C0'' (initialState [])"


definition shirtJacketOutfit :: saved_outfit where
  "shirtJacketOutfit =
     \<lparr>so_id = ''1700000000000'', so_name = ''Outfit 1'', so_thumbnailUrl = ''B9'',
      layers = [None, Some shirt, Some jacket]\<rparr>"

section \<open>Properties\<close>

subsection \<open>Evaluation on concrete inputs\<close>

lemmas model_defs =
  handleModelFinalized_def handleGarmentSelect_def handleRemoveLastGarment_def
  handlePoseSelect_def handleBackgroundChange_def handleSaveOutfit_def handleDeleteOutfit_def
  handleLoadOutfit_def finally_idle_def displayImageUrl_def currentBackground_def
  activeOutfitLayers_def pose_image_or_first_def first_value_def truthy_def js_index_def
  js_slice0_def prop_key_def POSE_INSTRUCTIONS_def defaultBackgrounds_def defaultBackground_def
  run_ops_def initialState_def shirt_def jacket_def plainMessage_def filesOk_def rendersOk_def
  rendersFailSecond_def shirtJacketOutfit_def digit_char_def handleStartOver_def

subsection \<open>The invariant is kept by every handler\<close>

lemma pose_key_0: "prop_key (js_index POSE_INSTRUCTIONS 0) = ''Full frontal view, hands on hips''"
  by (simp add: prop_key_def js_index_def POSE_INSTRUCTIONS_def)

lemma inv_init: "hist_inv (handleModelFinalized url s)"
  by (simp add: hist_inv_def handleModelFinalized_def wf_history_def pose_key_0)

lemma inv_remove: "hist_inv s \<Longrightarrow> hist_inv (handleRemoveLastGarment s)"
  by (auto simp add: hist_inv_def handleRemoveLastGarment_def)

lemma inv_save: "hist_inv s \<Longrightarrow> hist_inv (handleSaveOutfit s now ok)"
  by (auto simp add: hist_inv_def handleSaveOutfit_def Let_def)

lemma inv_delete: "hist_inv s \<Longrightarrow> hist_inv (handleDeleteOutfit s i)"
  by (auto simp add: hist_inv_def handleDeleteOutfit_def Let_def)

lemma wf_history_take_snoc:
  "wf_history h \<Longrightarrow> wf_history (take (Suc n) h @ [\<lparr>garment = Some g, poseImages = m\<rparr>])"
  by (cases h) (auto simp: wf_history_def list_all_iff dest: in_set_takeD)

lemma wf_history_update:
  "wf_history h \<Longrightarrow> i < length h \<Longrightarrow> garment l = garment (h ! i) \<Longrightarrow> wf_history (list_update h i l)"
  apply (cases h; cases i)
  apply (auto simp: wf_history_def list_all_iff)
  apply (metis in_set_conv_nth length_list_update nth_list_update nth_mem)
  done

lemma display_empty_base:
  "outfitHistory s = [\<lparr>garment = None, poseImages = [(k, [])]\<rparr>] \<Longrightarrow> modelImageUrl s = Some [] \<Longrightarrow> \<not> truthy (displayImageUrl s)"
  by (auto simp: displayImageUrl_def truthy_def js_index_def pose_image_or_first_def first_value_def split: option.splits)

lemma js_index_SomeD: "js_index xs i = Some x \<Longrightarrow> 0 \<le> i \<and> i < int (length xs) \<and> x = xs ! nat i"
  by (auto simp: js_index_def split: if_splits)

lemma js_index_in_range: "0 \<le> i \<Longrightarrow> i < int (length xs) \<Longrightarrow> js_index xs i = Some (xs ! nat i)"
  by (simp add: js_index_def)

lemma js_slice0_succ: "0 \<le> i \<Longrightarrow> i < int (length h) \<Longrightarrow> js_slice0 h (i + 1) = take (Suc (nat i)) h"
  by (simp add: js_slice0_def Let_def nat_add_distrib min_def)

lemma inv_garment: "hist_inv s \<Longrightarrow> hist_inv (fst (handleGarmentSelect f s file g r))"
proof -
  assume inv: "hist_inv s"
  show ?thesis
  proof (cases "modelImageUrl s = Some []")
    case True
    with inv have "outfitHistory s = [\<lparr>garment = None, poseImages = [(''Full frontal view, hands on hips'', [])]\<rparr>]"
      by (simp add: hist_inv_def)
    from display_empty_base[OF this True] have "\<not> truthy (displayImageUrl s)" .
    then show ?thesis using inv by (simp add: handleGarmentSelect_def)
  next
    case False
    with inv show ?thesis
      by (auto simp: hist_inv_def handleGarmentSelect_def Let_def finally_idle_def js_slice0_succ
          wf_history_take_snoc split: option.splits sum.splits dest!: js_index_SomeD)
  qed
qed

lemma inv_pose: "hist_inv s \<Longrightarrow> hist_inv (fst (handlePoseSelect f s i r))"
proof -
  assume inv: "hist_inv s"
  show ?thesis
  proof (cases "modelImageUrl s = Some []")
    case True
    with inv have h: "outfitHistory s = [\<lparr>garment = None, poseImages = [(''Full frontal view, hands on hips'', [])]\<rparr>]"
      by (simp add: hist_inv_def)
    show ?thesis using inv h
      by (auto simp: handlePoseSelect_def Let_def first_value_def truthy_def js_index_def split: option.splits if_splits)
  next
    case False
    with inv show ?thesis
      by (auto simp: hist_inv_def handlePoseSelect_def Let_def finally_idle_def
          wf_history_update split: option.splits sum.splits dest!: js_index_SomeD)
  qed
qed

lemma inv_bg: "hist_inv s \<Longrightarrow> hist_inv (fst (handleBackgroundChange f s i r))"
proof -
  assume inv: "hist_inv s"
  show ?thesis
  proof (cases "modelImageUrl s = Some []")
    case True
    with inv have h: "outfitHistory s = [\<lparr>garment = None, poseImages = [(''Full frontal view, hands on hips'', [])]\<rparr>]"
      by (simp add: hist_inv_def)
    show ?thesis using inv h
      by (auto simp: hist_inv_def handleBackgroundChange_def Let_def finally_idle_def first_value_def truthy_def pose_image_or_first_def
            split: option.splits if_splits dest!: js_index_SomeD)
  next
    case False
    with inv show ?thesis
      by (auto simp: hist_inv_def handleBackgroundChange_def Let_def finally_idle_def
          wf_history_update split: option.splits sum.splits dest!: js_index_SomeD)
  qed
qed


lemma wf_history_snoc: "wf_history h \<Longrightarrow> wf_history (h @ [\<lparr>garment = Some g, poseImages = m\<rparr>])"
  by (cases h) (auto simp: wf_history_def)

lemma load_loop_Inr:
  "fst (load_loop files renders i gs cur hist) = Inr h' \<Longrightarrow>
     map garment h' = map garment hist @ map Some gs"
proof (induction gs arbitrary: i cur hist)
  case Nil
  then show ?case by simp
next
  case (Cons g gs)
  then show ?case
    by (auto simp: Let_def split: sum.splits)
qed

lemma load_loop_wf:
  "fst (load_loop files renders i gs cur hist) = Inr h' \<Longrightarrow> wf_history hist \<Longrightarrow> wf_history h'"
proof (induction gs arbitrary: i cur hist)
  case Nil
  then show ?case by simp
next
  case (Cons g gs)
  then show ?case
    by (auto simp: Let_def wf_history_snoc split: sum.splits)
qed

lemma wf_history_nonempty: "wf_history h \<Longrightarrow> 0 < length h"
  by (cases h) (auto simp: wf_history_def)

lemma inv_load: "hist_inv s \<Longrightarrow> hist_inv (fst (handleLoadOutfit f s out files renders))"
proof -
  assume inv: "hist_inv s"
  show ?thesis
  proof (cases "isLoading s \<or> \<not> truthy (modelImageUrl s)")
    case True
    then show ?thesis using inv by (auto simp: handleLoadOutfit_def)
  next
    case False
    then obtain u where u: "modelImageUrl s = Some u" "u \<noteq> []"
      by (auto simp: truthy_def split: option.splits)
    let ?run = "load_loop files renders 0 (List.map_filter (\<lambda>l. l) (layers out)) u
                  [\<lparr>garment = None, poseImages = [(prop_key (js_index POSE_INSTRUCTIONS 0), u)]\<rparr>]"
    show ?thesis
    proof (cases "fst ?run")
      case (Inl e)
      with False u inv show ?thesis
        by (simp add: handleLoadOutfit_def Let_def finally_idle_def hist_inv_def)
    next
      case (Inr h')
      have "wf_history h'"
        by (rule load_loop_wf[OF Inr]) (simp add: wf_history_def)
      with False u Inr wf_history_nonempty[OF this] show ?thesis
        by (simp add: handleLoadOutfit_def Let_def finally_idle_def hist_inv_def)
    qed
  qed
qed

lemma inv_step: "hist_inv s \<Longrightarrow> hist_inv (step f s op)"
  by (cases op) (simp_all add: inv_init inv_garment inv_remove inv_pose inv_bg inv_save inv_load inv_delete)

lemma inv_run: "hist_inv s \<Longrightarrow> hist_inv (run_ops f s ops)"
  unfolding run_ops_def by (induction ops arbitrary: s) (simp_all add: inv_step)


subsection \<open>Cursor and base layer\<close>

text \<open>
  Claim C1. In every state reached from \<open>initialize(baseImage)\<close> (the handler
  \<open>handleModelFinalized\<close>, from any prior state) by any sequence of operations, with any
  inputs and any outcomes of the service calls, the cursor is at least 0 and less than the
  length of the history, and the first layer of the history has no garment.
\<close>

theorem cursor_in_range_and_base_layer_first:
  "0 \<le> currentOutfitIndex (run_ops f (handleModelFinalized baseImage s0) ops)
   \<and> currentOutfitIndex (run_ops f (handleModelFinalized baseImage s0) ops)
        < int (length (outfitHistory (run_ops f (handleModelFinalized baseImage s0) ops)))
   \<and> garment (hd (outfitHistory (run_ops f (handleModelFinalized baseImage s0) ops))) = None"
proof -
  have "hist_inv (run_ops f (handleModelFinalized baseImage s0) ops)"
    by (rule inv_run[OF inv_init])
  then show ?thesis
    by (cases "outfitHistory (run_ops f (handleModelFinalized baseImage s0) ops)")
       (auto simp: hist_inv_def wf_history_def)
qed

text \<open>
  The theorem at the state reached by applying a shirt, changing the background and
  selecting the third pose, where the cursor is 1.
\<close>

theorem cursor_in_range_and_base_layer_first_witness:
  "currentOutfitIndex
     (run_ops plainMessage (handleModelFinalized ''B0'' (initialState []))
        [ApplyGarment ''shirt-file'' shirt (Inr ''B1''),
         ChangeBackground ''city-street'' (Inr ''B2''), SelectPose 2 (Inr ''B3'')]) = 1
   \<and> 0 \<le> currentOutfitIndex
     (run_ops plainMessage (handleModelFinalized ''B0'' (initialState []))
        [ApplyGarment ''shirt-file'' shirt (Inr ''B1''),
         ChangeBackground ''city-street'' (Inr ''B2''), SelectPose 2 (Inr ''B3'')])
   \<and> currentOutfitIndex
     (run_ops plainMessage (handleModelFinalized ''B0'' (initialState []))
        [ApplyGarment ''shirt-file'' shirt (Inr ''B1''),
         ChangeBackground ''city-street'' (Inr ''B2''), SelectPose 2 (Inr ''B3'')])
     < int (length (outfitHistory
     (run_ops plainMessage (handleModelFinalized ''B0'' (initialState []))
        [ApplyGarment ''shirt-file'' shirt (Inr ''B1''),
         ChangeBackground ''city-street'' (Inr ''B2''), SelectPose 2 (Inr ''B3'')])))
   \<and> garment (hd (outfitHistory
     (run_ops plainMessage (handleModelFinalized ''B0'' (initialState []))
        [ApplyGarment ''shirt-file'' shirt (Inr ''B1''),
         ChangeBackground ''city-street'' (Inr ''B2''), SelectPose 2 (Inr ''B3'')]))) = None"
proof -
  have "currentOutfitIndex
     (run_ops plainMessage (handleModelFinalized ''B0'' (initialState []))
        [ApplyGarment ''shirt-file'' shirt (Inr ''B1''),
         ChangeBackground ''city-street'' (Inr ''B2''), SelectPose 2 (Inr ''B3'')]) = 1"
    by (simp add: model_defs Let_def)
  then show ?thesis
    using cursor_in_range_and_base_layer_first
      [of plainMessage "''B0''" "initialState []"
          "[ApplyGarment ''shirt-file'' shirt (Inr ''B1''),
            ChangeBackground ''city-street'' (Inr ''B2''), SelectPose 2 (Inr ''B3'')]"]
    by simp
qed

subsection \<open>Example states\<close>

lemma shirtState_value:
  "shirtState =
     \<lparr>modelImageUrl = Some ''B0'',
      outfitHistory =
        [\<lparr>garment = None, poseImages = [(''Full frontal view, hands on hips'', ''B0'')]\<rparr>,
         \<lparr>garment = Some shirt, poseImages = [(''Full frontal view, hands on hips'', ''B1'')]\<rparr>],
      currentOutfitIndex = 1, isLoading = False, loadingMessage = [], error = None,
      currentPoseIndex = 0, isSheetCollapsed = False, wardrobe = [shirt], savedOutfits = [],
      currentBackgroundId = ''studio''\<rparr>"
  by (simp add: shirtState_def model_defs Let_def)

lemma streetState_value:
  "streetState =
     \<lparr>modelImageUrl = Some ''B0'',
      outfitHistory =
        [\<lparr>garment = None, poseImages = [(''Full frontal view, hands on hips'', ''B0'')]\<rparr>,
         \<lparr>garment = Some shirt,
          poseImages = [(''Full frontal view, hands on hips'', ''B2''), (''Side profile view'', ''B3'')]\<rparr>],
      currentOutfitIndex = 1, isLoading = False, loadingMessage = [], error = None,
      currentPoseIndex = 2, isSheetCollapsed = False, wardrobe = [shirt], savedOutfits = [],
      currentBackgroundId = ''city-street''\<rparr>"
  by (simp add: streetState_def shirtState_value model_defs Let_def)

subsection \<open>Loading a snapshot\<close>

lemma wf_history_garments:
  "wf_history h \<Longrightarrow> \<exists>gs. map garment (take (Suc n) h) = None # map Some gs"
proof (cases h)
  case Nil
  assume "wf_history h"
  with Nil show ?thesis by (simp add: wf_history_def)
next
  case (Cons l ls)
  assume "wf_history h"
  with Cons have l: "garment l = None" and ls: "\<forall>x \<in> set ls. garment x \<noteq> None"
    by (auto simp: wf_history_def list_all_iff)
  have "map garment (take n ls) = map Some (map (\<lambda>x. the (garment x)) (take n ls))"
    using ls by (auto dest: in_set_takeD)
  with Cons l have "map garment (take (Suc n) h) = None # map Some (map (\<lambda>x. the (garment x)) (take n ls))"
    by simp
  then show ?thesis ..
qed

lemma map_filter_Some: "List.map_filter (\<lambda>l. l) (map Some gs) = gs"
  by (induction gs) (simp_all add: map_filter_simps)

lemma map_filter_garments: "List.map_filter (\<lambda>l. l) (None # map Some gs) = gs"
  by (simp add: map_filter_Some map_filter_simps)

lemma load_loop_succeeds:
  assumes "\<forall>i. \<exists>x. files i = Inr x" and "\<forall>i. \<exists>x. renders i = Inr x"
  shows "\<exists>h'. fst (load_loop files renders i gs cur hist) = Inr h'"
proof (induction gs arbitrary: i cur hist)
  case Nil
  show ?case by simp
next
  case (Cons g gs)
  from assms obtain x y where "files i = Inr x" "renders i = Inr y" by blast
  with Cons show ?case by (simp add: Let_def)
qed

lemma js_slice0_all: "js_slice0 h (int (length h)) = h"
  by (simp add: js_slice0_def Let_def)

lemma loadSnapshot_failure_reported:
  assumes "\<not> isLoading s" and "truthy (modelImageUrl s)"
    and "fst (load_loop files renders 0 (List.map_filter (\<lambda>l. l) (layers outfitToLoad))
               (the (modelImageUrl s))
               [\<lparr>garment = None,
                 poseImages = [(prop_key (js_index POSE_INSTRUCTIONS 0), the (modelImageUrl s))]\<rparr>])
         = Inl err"
  shows "fst (handleLoadOutfit f s outfitToLoad files renders)
         = s\<lparr>error := Some (f err ''Failed to load outfit''),
             currentBackgroundId := ''studio'', loadingMessage := []\<rparr>"
  using assms
  by (simp add: handleLoadOutfit_def Let_def finally_idle_def defaultBackground_def defaultBackgrounds_def)

text \<open>
  Claim C2, as amended. The claim says that a load failing partway leaves the history
  partially rebuilt. The handler builds the new history in the local array \<open>newHistory\<close>
  and writes it to the state only after the loop: whenever the load ends with an error, the
  history, the cursor and the active pose are those from before the call.
\<close>

theorem loadSnapshot_failure_keeps_history:
  assumes "error (fst (handleLoadOutfit f s outfitToLoad files renders)) \<noteq> None"
  shows "outfitHistory (fst (handleLoadOutfit f s outfitToLoad files renders)) = outfitHistory s
       \<and> currentOutfitIndex (fst (handleLoadOutfit f s outfitToLoad files renders)) = currentOutfitIndex s
       \<and> currentPoseIndex (fst (handleLoadOutfit f s outfitToLoad files renders)) = currentPoseIndex s"
proof (cases "isLoading s \<or> \<not> truthy (modelImageUrl s)")
  case True
  then show ?thesis by (auto simp: handleLoadOutfit_def)
next
  case False
  show ?thesis
  proof (cases "fst (load_loop files renders 0 (List.map_filter (\<lambda>l. l) (layers outfitToLoad))
               (the (modelImageUrl s))
               [\<lparr>garment = None,
                 poseImages = [(prop_key (js_index POSE_INSTRUCTIONS 0), the (modelImageUrl s))]\<rparr>])")
    case (Inl err)
    with False show ?thesis
      by (simp add: handleLoadOutfit_def Let_def finally_idle_def)
  next
    case (Inr h')
    with False assms show ?thesis
      by (simp add: handleLoadOutfit_def Let_def finally_idle_def)
  qed
qed

theorem loadSnapshot_failure_keeps_history_witness:
  "error (fst (handleLoadOutfit plainMessage shirtState shirtJacketOutfit filesOk rendersFailSecond))
     \<noteq> None
   \<and> outfitHistory
       (fst (handleLoadOutfit plainMessage shirtState shirtJacketOutfit filesOk rendersFailSecond))
     = outfitHistory shirtState
   \<and> currentOutfitIndex
       (fst (handleLoadOutfit plainMessage shirtState shirtJacketOutfit filesOk rendersFailSecond))
     = currentOutfitIndex shirtState
   \<and> currentPoseIndex
       (fst (handleLoadOutfit plainMessage shirtState shirtJacketOutfit filesOk rendersFailSecond))
     = currentPoseIndex shirtState"
proof -
  have h: "error (fst (handleLoadOutfit plainMessage shirtState shirtJacketOutfit filesOk
                         rendersFailSecond)) \<noteq> None"
    by (simp add: shirtState_value model_defs Let_def)
  from h loadSnapshot_failure_keeps_history[OF h] show ?thesis by (rule conjI)
qed

text \<open>
  The claim C2 as it is stated fails here: the first render succeeds, the second fails
  (four calls were issued), and the history after the load is the history from before it.
\<close>

theorem loadSnapshot_partial_failure_counterexample:
  "snd (handleLoadOutfit plainMessage shirtState shirtJacketOutfit filesOk rendersFailSecond)
     = [UrlToFile ''https://example.org/shirt.png'' ''Shirt'',
        GenerateVirtualTryOnImage ''B0'' ''file0'' ''a clean, neutral studio backdrop (light gray, #f0f0f0)'',
        UrlToFile ''https://example.org/jacket.png'' ''Jacket'',
        GenerateVirtualTryOnImage ''R0'' ''file1'' ''a clean, neutral studio backdrop (light gray, #f0f0f0)'']
   \<and> rendersFailSecond 0 = Inr ''R0''
   \<and> rendersFailSecond 1 = Inl (JsError ''quota exceeded'')
   \<and> outfitHistory (fst (handleLoadOutfit plainMessage shirtState shirtJacketOutfit filesOk rendersFailSecond))
     = outfitHistory shirtState"
  by (simp add: shirtState_value model_defs Let_def)

text \<open>
  Claim C5, at a failing load. The background was \<open>city-street\<close>; the load sets it to the
  default before the loop and its \<open>catch\<close> block does not put the previous value back,
  while the history still holds the images rendered on \<open>city-street\<close>. The handlers for
  the pose and for the background do restore their value (the two lemmas below).
\<close>

theorem loadSnapshot_failure_background_not_restored:
  "currentBackgroundId streetState = ''city-street''
   \<and> error (fst (handleLoadOutfit plainMessage streetState shirtJacketOutfit filesOk rendersFailSecond))
       = Some ''Failed to load outfit: quota exceeded''
   \<and> currentBackgroundId
       (fst (handleLoadOutfit plainMessage streetState shirtJacketOutfit filesOk rendersFailSecond))
       = ''studio''
   \<and> outfitHistory (fst (handleLoadOutfit plainMessage streetState shirtJacketOutfit filesOk rendersFailSecond))
       = outfitHistory streetState"
  by (simp add: streetState_value model_defs Let_def)

lemma selectPose_failure_rolls_back:
  assumes "snd (handlePoseSelect f s newIndex (Inl err)) \<noteq> []"
  shows "fst (handlePoseSelect f s newIndex (Inl err))
         = s\<lparr>error := Some (f err ''Failed to change pose''), loadingMessage := []\<rparr>"
  using assms
  by (auto simp: handlePoseSelect_def Let_def finally_idle_def split: if_splits option.splits)

lemma changeBackground_failure_rolls_back:
  assumes "snd (handleBackgroundChange f s newBackgroundId (Inl err)) \<noteq> []"
  shows "fst (handleBackgroundChange f s newBackgroundId (Inl err))
         = s\<lparr>error := Some (f err ''Failed to change background''), loadingMessage := []\<rparr>"
  using assms
  by (auto simp: handleBackgroundChange_def Let_def finally_idle_def split: if_splits option.splits)

lemma otherModelState_value:
  "otherModelState =
     \<lparr>modelImageUrl = Some ''C0'',
      outfitHistory =
        [\<lparr>garment = None, poseImages = [(''Full frontal view, hands on hips'', ''C0'')]\<rparr>],
      currentOutfitIndex = 0, isLoading = False, loadingMessage = [], error = None,
      currentPoseIndex = 0, isSheetCollapsed = False, wardrobe = [], savedOutfits = [],
      currentBackgroundId = ''studio''\<rparr>"
  by (simp add: otherModelState_def model_defs)

lemma undoState_value:
  "undoState =
     \<lparr>modelImageUrl = Some ''B0'',
      outfitHistory =
        [\<lparr>garment = None, poseImages = [(''Full frontal view, hands on hips'', ''B0'')]\<rparr>,
         \<lparr>garment = Some shirt, poseImages = [(''Full frontal view, hands on hips'', ''B1'')]\<rparr>,
         \<lparr>garment = Some jacket, poseImages = [(''Full frontal view, hands on hips'', ''B4'')]\<rparr>],
      currentOutfitIndex = 1, isLoading = False, loadingMessage = [], error = None,
      currentPoseIndex = 0, isSheetCollapsed = False, wardrobe = [shirt, jacket], savedOutfits = [],
      currentBackgroundId = ''studio''\<rparr>"
  by (simp add: undoState_def model_defs Let_def)

text \<open>
  Claim C8. Let \<open>s\<close> be a state reached by any sequence of operations after
  \<open>initialize\<close>, with at least two active layers and a display image, and let the snapshot
  be the one that \<open>saveSnapshot\<close> appends in \<open>s\<close>: it holds the garments of layers 0 to the
  cursor of \<open>s\<close>. Loading that snapshot in any idle state \<open>t\<close> that has a model image
  (whatever its history), every call succeeding, writes a history whose garments, from layer
  0 to the new cursor, which is its last layer, are the garments of layers 0 to the cursor
  of \<open>s\<close>.
\<close>

theorem save_then_load_round_trip:
  assumes reach: "s = run_ops f (handleModelFinalized baseImage s0) ops"
    and two: "2 \<le> length (activeOutfitLayers s)"
    and img: "truthy (displayImageUrl s)"
    and s1: "s1 = handleSaveOutfit s now storage_ok"
    and idle: "\<not> isLoading t"
    and model: "truthy (modelImageUrl t)"
    and files: "\<forall>i. \<exists>x. files i = Inr x"
    and renders: "\<forall>i. \<exists>x. renders i = Inr x"
    and s2: "s2 = fst (handleLoadOutfit g t (last (savedOutfits s1)) files renders)"
  shows "layers (last (savedOutfits s1))
           = map garment (take (nat (currentOutfitIndex s) + 1) (outfitHistory s))
       \<and> map garment (outfitHistory s2)
           = map garment (take (nat (currentOutfitIndex s) + 1) (outfitHistory s))
       \<and> currentOutfitIndex s2 = int (length (outfitHistory s2)) - 1
       \<and> map garment (activeOutfitLayers s2) = map garment (activeOutfitLayers s)"
proof -
  have inv: "hist_inv s"
    unfolding reach by (rule inv_run[OF inv_init])
  then have range: "0 \<le> currentOutfitIndex s" "currentOutfitIndex s < int (length (outfitHistory s))"
    and wf: "wf_history (outfitHistory s)"
    by (simp_all add: hist_inv_def)
  have active: "activeOutfitLayers s = take (nat (currentOutfitIndex s) + 1) (outfitHistory s)"
    by (simp add: activeOutfitLayers_def js_slice0_succ range)
  from wf_history_garments[OF wf, of "nat (currentOutfitIndex s)"] obtain gs where
    gs: "map garment (activeOutfitLayers s) = None # map Some gs"
    by (auto simp: active)
  from two img have saved: "savedOutfits s1 = savedOutfits s @
      [\<lparr>so_id = now, so_name = ''Outfit '' @ show_nat (length (savedOutfits s) + 1),
        so_thumbnailUrl = the (displayImageUrl s), layers = map garment (activeOutfitLayers s)\<rparr>]"
    by (simp add: s1 handleSaveOutfit_def Let_def)
  have snap: "layers (last (savedOutfits s1)) = map garment (activeOutfitLayers s)"
    by (simp add: saved)
  let ?base = "[\<lparr>garment = None,
                  poseImages = [(prop_key (js_index POSE_INSTRUCTIONS 0), the (modelImageUrl t))]\<rparr>]"
  from load_loop_succeeds[OF files renders] obtain h' where
    h': "fst (load_loop files renders 0 gs (the (modelImageUrl t)) ?base) = Inr h'"
    by blast
  from load_loop_Inr[OF h'] have g': "map garment h' = None # map Some gs" by simp
  have loaded: "outfitHistory s2 = h'" "currentOutfitIndex s2 = int (length h') - 1"
    using idle model h'
    by (simp_all add: s2 handleLoadOutfit_def Let_def snap gs map_filter_garments map_filter_Some finally_idle_def)
  have "activeOutfitLayers s2 = h'"
    by (simp add: activeOutfitLayers_def loaded js_slice0_all)
  with g' gs snap loaded active show ?thesis by simp
qed

text \<open>
  The theorem where the history at save time has a jacket layer after the cursor, and the
  load starts from another model image with nothing applied.
\<close>

theorem save_then_load_round_trip_witness:
  "2 \<le> length (activeOutfitLayers undoState)
   \<and> truthy (displayImageUrl undoState)
   \<and> map garment (outfitHistory undoState) = [None, Some shirt, Some jacket]
   \<and> currentOutfitIndex undoState = 1
   \<and> \<not> isLoading otherModelState
   \<and> truthy (modelImageUrl otherModelState)
   \<and> map garment (outfitHistory otherModelState) = [None]
   \<and> layers (last (savedOutfits (handleSaveOutfit undoState ''1700000000000'' True)))
     = [None, Some shirt]
   \<and> map garment
       (outfitHistory
          (fst (handleLoadOutfit plainMessage otherModelState
                  (last (savedOutfits (handleSaveOutfit undoState ''1700000000000'' True)))
                  filesOk rendersOk)))
     = [None, Some shirt]
   \<and> currentOutfitIndex
       (fst (handleLoadOutfit plainMessage otherModelState
               (last (savedOutfits (handleSaveOutfit undoState ''1700000000000'' True)))
               filesOk rendersOk))
     = 1"
proof -
  let ?snap = "last (savedOutfits (handleSaveOutfit undoState ''1700000000000'' True))"
  let ?s2 = "fst (handleLoadOutfit plainMessage otherModelState ?snap filesOk rendersOk)"
  have h2: "2 \<le> length (activeOutfitLayers undoState)"
    by (simp add: undoState_value model_defs Let_def)
  have h3: "truthy (displayImageUrl undoState)"
    by (simp add: undoState_value model_defs Let_def)
  have u: "map garment (outfitHistory undoState) = [None, Some shirt, Some jacket]"
    "currentOutfitIndex undoState = 1"
    by (simp_all add: undoState_value)
  have t1: "\<not> isLoading otherModelState"
    by (simp add: otherModelState_value)
  have t2: "truthy (modelImageUrl otherModelState)"
    by (simp add: otherModelState_value truthy_def)
  have t3: "map garment (outfitHistory otherModelState) = [None]"
    by (simp add: otherModelState_value)
  have h4: "\<forall>i. \<exists>x. filesOk i = Inr x"
    by (simp add: filesOk_def)
  have h5: "\<forall>i. \<exists>x. rendersOk i = Inr x"
    by (simp add: rendersOk_def)
  have h6: "map garment (take (nat (currentOutfitIndex undoState) + 1) (outfitHistory undoState))
              = [None, Some shirt]"
    by (simp add: undoState_value)
  note rt = save_then_load_round_trip[OF undoState_def h2 h3 refl t1 t2 h4 h5 refl,
              of "''1700000000000''" True plainMessage]
  from rt[THEN conjunct1] h6
  have l: "layers ?snap = [None, Some shirt]"
    by (rule trans)
  from rt[THEN conjunct2, THEN conjunct1] h6
  have g: "map garment (outfitHistory ?s2) = [None, Some shirt]"
    by (rule trans)
  from rt[THEN conjunct2, THEN conjunct2, THEN conjunct1]
  have c: "currentOutfitIndex ?s2 = int (length (outfitHistory ?s2)) - 1" .
  from g have "length (map garment (outfitHistory ?s2)) = 2"
    by simp
  then have "length (outfitHistory ?s2) = 2"
    by simp
  with c have "currentOutfitIndex ?s2 = 1" by simp
  with h2 h3 u t1 t2 t3 l g show ?thesis by blast
qed

lemma find_is_None: "(find P xs = None) = (\<not> (\<exists>x \<in> set xs. P x))"
  by (induction xs) auto

text \<open>
  Claim C10. \<open>loadSnapshot\<close> leaves the wardrobe catalog as it is, whatever the snapshot
  holds and however the load ends; \<open>applyGarment\<close>, when its render succeeds, appends the
  garment to the catalog unless an item with its id is there.
\<close>

theorem loadSnapshot_keeps_wardrobe:
  "wardrobe (fst (handleLoadOutfit f s outfitToLoad files renders)) = wardrobe s
   \<and> (snd (handleGarmentSelect f s garmentFile garmentInfo (Inr newImageUrl)) \<noteq> [] \<longrightarrow>
        wardrobe (fst (handleGarmentSelect f s garmentFile garmentInfo (Inr newImageUrl)))
          = (if \<exists>item \<in> set (wardrobe s). item_id item = item_id garmentInfo
             then wardrobe s else wardrobe s @ [garmentInfo]))"
proof
  show "wardrobe (fst (handleLoadOutfit f s outfitToLoad files renders)) = wardrobe s"
    by (simp add: handleLoadOutfit_def Let_def finally_idle_def split: sum.splits)
next
  show "snd (handleGarmentSelect f s garmentFile garmentInfo (Inr newImageUrl)) \<noteq> [] \<longrightarrow>
        wardrobe (fst (handleGarmentSelect f s garmentFile garmentInfo (Inr newImageUrl)))
          = (if \<exists>item \<in> set (wardrobe s). item_id item = item_id garmentInfo
             then wardrobe s else wardrobe s @ [garmentInfo])"
  proof (cases "find (\<lambda>item. item_id item = item_id garmentInfo) (wardrobe s)")
    case None
    then have "\<not> (\<exists>item \<in> set (wardrobe s). item_id item = item_id garmentInfo)"
      by (simp add: find_is_None)
    with None show ?thesis
      by (simp add: handleGarmentSelect_def Let_def finally_idle_def)
  next
    case (Some x)
    then have "\<exists>item \<in> set (wardrobe s). item_id item = item_id garmentInfo"
      using find_is_None[of "\<lambda>item. item_id item = item_id garmentInfo" "wardrobe s"] by simp
    with Some show ?thesis
      by (simp add: handleGarmentSelect_def Let_def finally_idle_def)
  qed
qed

theorem loadSnapshot_keeps_wardrobe_witness:
  "wardrobe (fst (handleLoadOutfit plainMessage shirtState shirtJacketOutfit filesOk rendersOk))
     = [shirt]
   \<and> outfitHistory (fst (handleLoadOutfit plainMessage shirtState shirtJacketOutfit filesOk rendersOk))
     = [\<lparr>garment = None, poseImages = [(''Full frontal view, hands on hips'', ''B0'')]\<rparr>,
        \<lparr>garment = Some shirt, poseImages = [(''Full frontal view, hands on hips'', ''R0'')]\<rparr>,
        \<lparr>garment = Some jacket, poseImages = [(''Full frontal view, hands on hips'', ''R1'')]\<rparr>]
   \<and> wardrobe (fst (handleGarmentSelect plainMessage shirtState ''jacket-file'' jacket (Inr ''B4'')))
     = [shirt, jacket]"
proof -
  have w: "wardrobe shirtState = [shirt]"
    by (simp add: shirtState_value)
  have c: "snd (handleGarmentSelect plainMessage shirtState ''jacket-file'' jacket (Inr ''B4'')) \<noteq> []"
    by (simp add: shirtState_value model_defs Let_def)
  have n: "\<not> (\<exists>item \<in> set (wardrobe shirtState). item_id item = item_id jacket)"
    by (simp add: shirtState_value shirt_def jacket_def)
  have h: "outfitHistory (fst (handleLoadOutfit plainMessage shirtState shirtJacketOutfit filesOk rendersOk))
     = [\<lparr>garment = None, poseImages = [(''Full frontal view, hands on hips'', ''B0'')]\<rparr>,
        \<lparr>garment = Some shirt, poseImages = [(''Full frontal view, hands on hips'', ''R0'')]\<rparr>,
        \<lparr>garment = Some jacket, poseImages = [(''Full frontal view, hands on hips'', ''R1'')]\<rparr>]"
    by (simp add: shirtState_value model_defs Let_def)
  from loadSnapshot_keeps_wardrobe
         [of plainMessage shirtState shirtJacketOutfit filesOk rendersOk "''jacket-file''" jacket "''B4''"]
       w c n h
  show ?thesis by simp
qed

subsection \<open>Changing the background\<close>

lemma backgroundChange_call_issued:
  assumes "snd (handleBackgroundChange f s newBackgroundId outcome) \<noteq> []"
  shows "\<exists>selectedBg currentLayer baseImage.
           find (\<lambda>bg. bg_id bg = newBackgroundId) defaultBackgrounds = Some selectedBg
         \<and> \<not> isLoading s \<and> currentBackgroundId s \<noteq> newBackgroundId \<and> outfitHistory s \<noteq> []
         \<and> js_index (outfitHistory s) (currentOutfitIndex s) = Some currentLayer
         \<and> pose_image_or_first currentLayer (js_index POSE_INSTRUCTIONS (currentPoseIndex s)) = Some baseImage
         \<and> baseImage \<noteq> []"
  using assms
  by (auto simp: handleBackgroundChange_def Let_def truthy_def split: option.splits if_splits sum.splits)

text \<open>
  Claim C3. When \<open>changeBackground\<close> is accepted and its call to the service is issued and
  succeeds with \<open>resultImage\<close>, the pose map of the active layer afterwards is the single
  entry from the key of the active pose to \<open>resultImage\<close>.
\<close>

theorem changeBackground_success_single_pose_entry:
  assumes "snd (handleBackgroundChange f s newBackgroundId (Inr resultImage)) \<noteq> []"
  shows "map_option poseImages
           (js_index (outfitHistory (fst (handleBackgroundChange f s newBackgroundId (Inr resultImage))))
                     (currentOutfitIndex (fst (handleBackgroundChange f s newBackgroundId (Inr resultImage)))))
         = Some [(prop_key (js_index POSE_INSTRUCTIONS
                    (currentPoseIndex (fst (handleBackgroundChange f s newBackgroundId (Inr resultImage))))),
                  resultImage)]"
proof -
  from backgroundChange_call_issued[OF assms] obtain selectedBg currentLayer baseImage where
    a: "find (\<lambda>bg. bg_id bg = newBackgroundId) defaultBackgrounds = Some selectedBg"
       "\<not> isLoading s" "currentBackgroundId s \<noteq> newBackgroundId" "outfitHistory s \<noteq> []"
       "js_index (outfitHistory s) (currentOutfitIndex s) = Some currentLayer"
       "pose_image_or_first currentLayer (js_index POSE_INSTRUCTIONS (currentPoseIndex s)) = Some baseImage"
       "baseImage \<noteq> []"
    by blast
  from a(5) have r: "0 \<le> currentOutfitIndex s" "currentOutfitIndex s < int (length (outfitHistory s))"
    by (auto dest: js_index_SomeD)
  from a r show ?thesis
    by (simp add: handleBackgroundChange_def Let_def truthy_def finally_idle_def js_index_def)
qed

theorem changeBackground_success_single_pose_entry_witness:
  "snd (handleBackgroundChange plainMessage streetState ''abstract'' (Inr ''B7'')) \<noteq> []
   \<and> poseImages (outfitHistory streetState ! 1)
     = [(''Full frontal view, hands on hips'', ''B2''), (''Side profile view'', ''B3'')]
   \<and> map_option poseImages
       (js_index (outfitHistory (fst (handleBackgroundChange plainMessage streetState ''abstract'' (Inr ''B7''))))
          (currentOutfitIndex (fst (handleBackgroundChange plainMessage streetState ''abstract'' (Inr ''B7'')))))
     = Some [(''Side profile view'', ''B7'')]"
proof -
  have h: "snd (handleBackgroundChange plainMessage streetState ''abstract'' (Inr ''B7'')) \<noteq> []"
    by (simp add: streetState_value model_defs Let_def)
  have p: "poseImages (outfitHistory streetState ! 1)
     = [(''Full frontal view, hands on hips'', ''B2''), (''Side profile view'', ''B3'')]"
    by (simp add: streetState_value)
  have k: "prop_key (js_index POSE_INSTRUCTIONS
             (currentPoseIndex (fst (handleBackgroundChange plainMessage streetState ''abstract'' (Inr ''B7'')))))
           = ''Side profile view''"
    by (simp add: streetState_value model_defs Let_def)
  from changeBackground_success_single_pose_entry[OF h] h p k show ?thesis by simp
qed

subsection \<open>Applying and removing garments\<close>

lemma removeLastGarment_keeps_history:
  "outfitHistory (handleRemoveLastGarment t) = outfitHistory t"
  by (simp add: handleRemoveLastGarment_def)

text \<open>
  Claim C4. When \<open>applyGarment\<close> is accepted (idle, a display image exists) and the layer
  after the cursor carries a garment with the id of the garment passed, the cursor advances
  by one, the active pose becomes 0, no call is issued and nothing else changes, the
  history included. \<open>removeLastGarment\<close> never changes the history and, from a positive
  cursor, moves the cursor back by one. So from an idle state \<open>t\<close> with a positive cursor
  whose active layer carries the garment's id (and whose previous layer has an image for the
  first pose or any image at all), removing and then re-applying the garment issues no call
  and gives \<open>t\<close> back with the active pose 0: the layer is reused as it is.
\<close>

theorem applyGarment_redo_fast_path:
  "(\<not> isLoading s \<and> truthy (displayImageUrl s)
      \<and> js_index (outfitHistory s) (currentOutfitIndex s + 1) = Some nextLayer
      \<and> map_option item_id (garment nextLayer) = Some (item_id garmentInfo)
    \<longrightarrow> handleGarmentSelect f s garmentFile garmentInfo outcome
          = (s\<lparr>currentOutfitIndex := currentOutfitIndex s + 1, currentPoseIndex := 0\<rparr>, []))
   \<and> outfitHistory (handleRemoveLastGarment t) = outfitHistory t
   \<and> (0 < currentOutfitIndex t
        \<longrightarrow> currentOutfitIndex (handleRemoveLastGarment t) = currentOutfitIndex t - 1)
   \<and> (\<not> isLoading t \<and> 0 < currentOutfitIndex t
      \<and> js_index (outfitHistory t) (currentOutfitIndex t) = Some activeLayer
      \<and> map_option item_id (garment activeLayer) = Some (item_id garmentInfo)
      \<and> js_index (outfitHistory t) (currentOutfitIndex t - 1) = Some previousLayer
      \<and> truthy (pose_image_or_first previousLayer (js_index POSE_INSTRUCTIONS 0))
    \<longrightarrow> handleGarmentSelect f (handleRemoveLastGarment t) garmentFile garmentInfo outcome
          = (t\<lparr>currentPoseIndex := 0\<rparr>, []))"
proof (intro conjI impI)
  assume "\<not> isLoading s \<and> truthy (displayImageUrl s)
      \<and> js_index (outfitHistory s) (currentOutfitIndex s + 1) = Some nextLayer
      \<and> map_option item_id (garment nextLayer) = Some (item_id garmentInfo)"
  then show "handleGarmentSelect f s garmentFile garmentInfo outcome
          = (s\<lparr>currentOutfitIndex := currentOutfitIndex s + 1, currentPoseIndex := 0\<rparr>, [])"
    by (simp add: handleGarmentSelect_def Let_def)
next
  show "outfitHistory (handleRemoveLastGarment t) = outfitHistory t"
    by (rule removeLastGarment_keeps_history)
next
  assume "0 < currentOutfitIndex t"
  then show "currentOutfitIndex (handleRemoveLastGarment t) = currentOutfitIndex t - 1"
    by (simp add: handleRemoveLastGarment_def)
next
  assume a: "\<not> isLoading t \<and> 0 < currentOutfitIndex t
      \<and> js_index (outfitHistory t) (currentOutfitIndex t) = Some activeLayer
      \<and> map_option item_id (garment activeLayer) = Some (item_id garmentInfo)
      \<and> js_index (outfitHistory t) (currentOutfitIndex t - 1) = Some previousLayer
      \<and> truthy (pose_image_or_first previousLayer (js_index POSE_INSTRUCTIONS 0))"
  let ?r = "handleRemoveLastGarment t"
  from a have r: "?r = t\<lparr>currentOutfitIndex := currentOutfitIndex t - 1, currentPoseIndex := 0\<rparr>"
    by (simp add: handleRemoveLastGarment_def)
  from a have ne: "outfitHistory t \<noteq> []"
    by (auto simp: js_index_def)
  from a ne have d: "truthy (displayImageUrl ?r)"
    by (simp add: r displayImageUrl_def)
  from a d show "handleGarmentSelect f ?r garmentFile garmentInfo outcome = (t\<lparr>currentPoseIndex := 0\<rparr>, [])"
    by (simp add: handleGarmentSelect_def Let_def r)
qed

theorem applyGarment_redo_fast_path_witness:
  "\<not> isLoading shirtState
   \<and> currentOutfitIndex shirtState = 1
   \<and> outfitHistory (handleRemoveLastGarment shirtState) = outfitHistory shirtState
   \<and> currentOutfitIndex (handleRemoveLastGarment shirtState) = 0
   \<and> handleGarmentSelect plainMessage (handleRemoveLastGarment shirtState) ''shirt-file'' shirt
       (Inl (JsError ''not called''))
     = (shirtState\<lparr>currentPoseIndex := 0\<rparr>, [])"
proof -
  let ?active = "\<lparr>garment = Some shirt, poseImages = [(''Full frontal view, hands on hips'', ''B1'')]\<rparr>"
  let ?previous = "\<lparr>garment = None, poseImages = [(''Full frontal view, hands on hips'', ''B0'')]\<rparr>"
  have h1: "\<not> isLoading shirtState" "currentOutfitIndex shirtState = 1"
    by (simp_all add: shirtState_value)
  have h2: "js_index (outfitHistory shirtState) (currentOutfitIndex shirtState) = Some ?active"
    by (simp add: shirtState_value js_index_def)
  have h3: "map_option item_id (garment ?active) = Some (item_id shirt)"
    by simp
  have h4: "js_index (outfitHistory shirtState) (currentOutfitIndex shirtState - 1) = Some ?previous"
    by (simp add: shirtState_value js_index_def)
  have h5: "truthy (pose_image_or_first ?previous (js_index POSE_INSTRUCTIONS 0))"
    by (simp add: model_defs)
  note redo = applyGarment_redo_fast_path
               [where s = shirtState and t = shirtState and nextLayer = ?active
                  and garmentInfo = shirt and f = plainMessage and garmentFile = "''shirt-file''"
                  and outcome = "Inl (JsError ''not called'')"
                  and activeLayer = ?active and previousLayer = ?previous]
  from redo h1 have a: "outfitHistory (handleRemoveLastGarment shirtState) = outfitHistory shirtState"
    and b: "currentOutfitIndex (handleRemoveLastGarment shirtState) = 0"
    by simp_all
  from redo h1 h2 h3 h4 h5
  have c: "handleGarmentSelect plainMessage (handleRemoveLastGarment shirtState) ''shirt-file'' shirt
             (Inl (JsError ''not called'')) = (shirtState\<lparr>currentPoseIndex := 0\<rparr>, [])"
    by simp
  from h1 a b c show ?thesis by blast
qed

text \<open>
  Claim C6. When \<open>applyGarment\<close> issues its call to the service (the slow path) and the call
  fails with \<open>err\<close>, the state afterwards is the state before with the error message set
  (and the loading text empty); the busy flag is off; the history, the cursor, the active
  pose and the wardrobe are as before.
\<close>

theorem applyGarment_failure_state_unchanged:
  assumes "snd (handleGarmentSelect f s garmentFile garmentInfo (Inl err)) \<noteq> []"
  shows "fst (handleGarmentSelect f s garmentFile garmentInfo (Inl err))
           = s\<lparr>error := Some (f err ''Failed to apply garment''), loadingMessage := []\<rparr>
       \<and> \<not> isLoading (fst (handleGarmentSelect f s garmentFile garmentInfo (Inl err)))
       \<and> outfitHistory (fst (handleGarmentSelect f s garmentFile garmentInfo (Inl err)))
           = outfitHistory s
       \<and> currentOutfitIndex (fst (handleGarmentSelect f s garmentFile garmentInfo (Inl err)))
           = currentOutfitIndex s
       \<and> currentPoseIndex (fst (handleGarmentSelect f s garmentFile garmentInfo (Inl err)))
           = currentPoseIndex s
       \<and> wardrobe (fst (handleGarmentSelect f s garmentFile garmentInfo (Inl err))) = wardrobe s"
  using assms
  by (auto simp: handleGarmentSelect_def Let_def finally_idle_def split: if_splits)

theorem applyGarment_failure_state_unchanged_witness:
  "snd (handleGarmentSelect plainMessage shirtState ''jacket-file'' jacket
          (Inl (JsError ''quota exceeded''))) \<noteq> []
   \<and> fst (handleGarmentSelect plainMessage shirtState ''jacket-file'' jacket
            (Inl (JsError ''quota exceeded'')))
     = shirtState\<lparr>error := Some ''Failed to apply garment: quota exceeded''\<rparr>"
proof -
  have h: "snd (handleGarmentSelect plainMessage shirtState ''jacket-file'' jacket
                  (Inl (JsError ''quota exceeded''))) \<noteq> []"
    by (simp add: shirtState_value model_defs Let_def)
  have m: "loadingMessage shirtState = []"
    "plainMessage (JsError ''quota exceeded'') ''Failed to apply garment''
       = ''Failed to apply garment: quota exceeded''"
    by (simp_all add: shirtState_value plainMessage_def)
  from applyGarment_failure_state_unchanged[OF h] h m show ?thesis by simp
qed

subsection \<open>Selecting a pose\<close>

text \<open>
  Claim C7. When the pose map of the active layer holds an image (a non-empty reference: the
  handler tests the cached value, \<open>if (currentLayer.poseImages[poseInstruction])\<close>) under the
  key of the new pose, \<open>selectPose\<close> issues no call to the service, whatever else holds; and
  when the application is idle, the state afterwards is the state before with the active
  pose set to the new index, nothing else changed.
\<close>

theorem selectPose_cache_hit:
  assumes "js_index (outfitHistory s) (currentOutfitIndex s) = Some currentLayer"
    and "map_of (poseImages currentLayer) (prop_key (js_index POSE_INSTRUCTIONS newPoseIndex)) = Some cachedImage"
    and "cachedImage \<noteq> []"
  shows "snd (handlePoseSelect f s newPoseIndex outcome) = []
       \<and> (\<not> isLoading s \<longrightarrow>
            fst (handlePoseSelect f s newPoseIndex outcome) = s\<lparr>currentPoseIndex := newPoseIndex\<rparr>)"
  using assms
  by (auto simp: handlePoseSelect_def Let_def truthy_def js_index_def split: if_splits)

theorem selectPose_cache_hit_witness:
  "js_index (outfitHistory streetState) (currentOutfitIndex streetState)
     = Some \<lparr>garment = Some shirt,
              poseImages = [(''Full frontal view, hands on hips'', ''B2''),
                            (''Side profile view'', ''B3'')]\<rparr>
   \<and> currentPoseIndex streetState = 2
   \<and> handlePoseSelect plainMessage streetState 0 (Inl (JsError ''not called''))
     = (streetState\<lparr>currentPoseIndex := 0\<rparr>, [])"
proof -
  let ?layer = "\<lparr>garment = Some shirt,
                 poseImages = [(''Full frontal view, hands on hips'', ''B2''),
                               (''Side profile view'', ''B3'')]\<rparr>"
  have h1: "js_index (outfitHistory streetState) (currentOutfitIndex streetState) = Some ?layer"
    by (simp add: streetState_value js_index_def)
  have h2: "map_of (poseImages ?layer) (prop_key (js_index POSE_INSTRUCTIONS 0)) = Some ''B2''"
    by (simp add: model_defs)
  have h3: "''B2'' \<noteq> []"
    by simp
  have h4: "\<not> isLoading streetState" "currentPoseIndex streetState = 2"
    by (simp_all add: streetState_value)
  from selectPose_cache_hit[OF h1 h2 h3, of plainMessage "Inl (JsError ''not called'')"] h4
  have "handlePoseSelect plainMessage streetState 0 (Inl (JsError ''not called''))
          = (streetState\<lparr>currentPoseIndex := 0\<rparr>, [])"
    by (simp add: prod_eq_iff)
  with h1 h4 show ?thesis by blast
qed

subsection \<open>Initialising\<close>










end
